theory Spec2Isabelle
  imports Complex_Main "HOL-Library.Word" "HOL-Library.Monad_Syntax"
begin

section \<open>RawImage (utils/image.js): a shallow embedding\<close>

text \<open>
  The class \<^verbatim>\<open>RawImage\<close> wraps a \<^verbatim>\<open>Uint8ClampedArray\<close> of interleaved pixel
  bytes together with a width, a height and a channel count.  The channel conversions
  (\<^verbatim>\<open>grayscale\<close>, \<^verbatim>\<open>rgb\<close>, \<^verbatim>\<open>rgba\<close>, \<^verbatim>\<open>convert\<close>) rewrite the fields of the instance
  and return it; \<^verbatim>\<open>resize\<close>, \<^verbatim>\<open>pad\<close> and \<^verbatim>\<open>center_crop\<close> return the instance itself or
  a new one, through one of four branches chosen from the host environment.
\<close>

subsection \<open>Typed arrays\<close>

type_synonym byte = "8 word"

text \<open>
  \<^verbatim>\<open>new Uint8ClampedArray(n)\<close> is zero filled.  Reading at an index that is not an
  element gives \<^verbatim>\<open>undefined\<close> (here \<open>None\<close>); writing there is dropped; storing
  \<^verbatim>\<open>undefined\<close> stores 0, since \<^verbatim>\<open>ToNumber(undefined)\<close> is NaN and NaN is stored as 0.
\<close>

definition new_Uint8ClampedArray :: "nat \<Rightarrow> byte list" where
  "new_Uint8ClampedArray n = replicate n 0"

definition get_elem :: "byte list \<Rightarrow> nat \<Rightarrow> byte option" where
  "get_elem a i = (if i < length a then Some (a ! i) else None)"

definition set_elem :: "byte list \<Rightarrow> nat \<Rightarrow> byte option \<Rightarrow> byte list" where
  "set_elem a i v =
     (if i < length a then a[i := (case v of Some b \<Rightarrow> b | None \<Rightarrow> 0)] else a)"

text \<open>
  An index computed in JavaScript numbers need not be a natural number.  Only a
  non-negative integer below the length names an element.
\<close>

definition get_elem_num :: "byte list \<Rightarrow> rat \<Rightarrow> byte option" where
  "get_elem_num a q =
     (if of_int \<lfloor>q\<rfloor> = q \<and> 0 \<le> q then get_elem a (nat \<lfloor>q\<rfloor>) else None)"

subsection \<open>JavaScript numbers in the luma formula\<close>

text \<open>
  \<^verbatim>\<open>Math.round(0.2989 * red + 0.5870 * green + 0.1140 * blue)\<close> is evaluated in IEEE 754
  binary64.  Finite doubles are rationals, so the operations are modelled exactly:
  every literal, product and sum is rounded to the nearest double, ties to even
  (\<open>to_double\<close>).  The model covers finite results; the largest value formed from
  bytes is below 256.
\<close>

definition pow2 :: "int \<Rightarrow> rat" where
  "pow2 e = (if 0 \<le> e then 2 ^ nat e else 1 / 2 ^ nat (- e))"

fun bit_length :: "nat \<Rightarrow> nat" where
  "bit_length n = (if n = 0 then 0 else Suc (bit_length (n div 2)))"

declare bit_length.simps [simp del]

text \<open>The binary exponent of a positive rational: the \<open>e\<close> with \<open>2^e \<le> x < 2^(e+1)\<close>.\<close>

definition binary_exponent :: "rat \<Rightarrow> int" where
  "binary_exponent x =
     (if 1 \<le> x then int (bit_length (nat \<lfloor>x\<rfloor>)) - 1
      else - int (bit_length (nat (\<lceil>1 / x\<rceil> - 1))))"

definition round_half_even :: "rat \<Rightarrow> int" where
  "round_half_even q =
     (let f = \<lfloor>q\<rfloor>; r = q - of_int f in
      if r < 1 / 2 then f else if 1 / 2 < r then f + 1
      else if even f then f else f + 1)"

definition to_double :: "rat \<Rightarrow> rat" where
  "to_double x =
     (if x = 0 then 0
      else let e = max (binary_exponent \<bar>x\<bar>) (- 1022);
               quantum = pow2 (e - 52)
           in sgn x * of_int (round_half_even (\<bar>x\<bar> / quantum)) * quantum)"

definition double_mul :: "rat \<Rightarrow> rat \<Rightarrow> rat" where
  "double_mul a b = to_double (a * b)"

definition double_add :: "rat \<Rightarrow> rat \<Rightarrow> rat" where
  "double_add a b = to_double (a + b)"

text \<open>\<^verbatim>\<open>Math.round\<close>: the nearest integer, a tie going up.\<close>

definition Math_round :: "rat \<Rightarrow> int" where
  "Math_round v = \<lfloor>v + 1 / 2\<rfloor>"

text \<open>Storing a number in a \<^verbatim>\<open>Uint8ClampedArray\<close> clamps it to 0..255.\<close>

definition ToUint8Clamp :: "int \<Rightarrow> byte" where
  "ToUint8Clamp n = word_of_int (max 0 (min 255 n))"

definition byte_num :: "byte \<Rightarrow> rat" where
  "byte_num b = of_nat (unat b)"

text \<open>
  The value stored by \<^verbatim>\<open>newData[offset++] = Math.round(0.2989 * red + 0.5870 * green +
  0.1140 * blue)\<close>.  A component read past the end of the data is \<^verbatim>\<open>undefined\<close>; the
  sum is then NaN, and NaN is stored as 0.
\<close>

definition luma :: "byte option \<Rightarrow> byte option \<Rightarrow> byte option \<Rightarrow> byte option" where
  "luma red green blue =
     (case (red, green, blue) of
        (Some r, Some g, Some b) \<Rightarrow>
          Some (ToUint8Clamp (Math_round
            (double_add
               (double_add (double_mul (to_double (2989 / 10000)) (byte_num r))
                           (double_mul (to_double (5870 / 10000)) (byte_num g)))
               (double_mul (to_double (1140 / 10000)) (byte_num b)))))
      | _ \<Rightarrow> None)"

subsection \<open>The for statement\<close>

text \<open>
  \<^verbatim>\<open>for (let i = a; i < n; i += c) body\<close>, with the other loop variables in the state
  \<open>s\<close>.  With \<open>c = 0\<close> and \<open>a < n\<close> the statement never finishes: the value is \<open>None\<close>.
\<close>

partial_function (option) for_loop ::
  "nat \<Rightarrow> nat \<Rightarrow> nat \<Rightarrow> (nat \<Rightarrow> 's \<Rightarrow> 's) \<Rightarrow> 's \<Rightarrow> 's option" where
  "for_loop i n c body s = (if i < n then for_loop (i + c) n c body (body i s) else Some s)"

declare for_loop.simps [code]

subsection \<open>The instance and its channel conversions\<close>

record RawImage =
  data :: "byte list"
  width :: nat
  height :: nat
  channels :: nat

datatype resample = Code int | Name string

datatype error =
    UnsupportedChannelCount nat
      \<comment> \<open>\<^verbatim>\<open>Conversion failed due to unsupported number of channels: ${this.channels}\<close>\<close>
  | UnsupportedResampleMethod resample
      \<comment> \<open>\<^verbatim>\<open>Resampling method ${resampleMethod} is not supported.\<close>\<close>
  | BackendCapabilityMissing string
      \<comment> \<open>\<^verbatim>\<open>toImageData is not supported\<close>, \<^verbatim>\<open>toCanvas is not supported\<close>,
          \<^verbatim>\<open>OffscreenCanvas not supported by this browser.\<close>\<close>
  | TypeError string
      \<comment> \<open>calling or constructing a binding that is \<^verbatim>\<open>undefined\<close>\<close>
  | BackendError string
      \<comment> \<open>a rejection of the native raster library\<close>

text \<open>
  A conversion either returns \<^verbatim>\<open>this\<close> or throws.  Both outcomes carry the fields of
  the instance as the call leaves them.
\<close>

datatype outcome = Returned RawImage | Threw error RawImage

text \<open>\<^verbatim>\<open>_update(data, width, height, channels = null)\<close>\<close>

definition update' :: "RawImage \<Rightarrow> byte list \<Rightarrow> nat \<Rightarrow> nat \<Rightarrow> nat option \<Rightarrow> RawImage" where
  "update' this d w h c =
     (let this1 = this\<lparr>data := d, width := w, height := h\<rparr>
      in case c of Some n \<Rightarrow> this1\<lparr>channels := n\<rparr> | None \<Rightarrow> this1)"

text \<open>The constructor calls \<^verbatim>\<open>_update\<close> with all four arguments.\<close>

definition new_RawImage :: "byte list \<Rightarrow> nat \<Rightarrow> nat \<Rightarrow> nat \<Rightarrow> RawImage" where
  "new_RawImage d w h c = \<lparr>data = d, width = w, height = h, channels = c\<rparr>"

text \<open>The loop bodies; the state is \<^verbatim>\<open>(offset, newData)\<close>.\<close>

definition grayscale_body :: "byte list \<Rightarrow> nat \<Rightarrow> nat \<times> byte list \<Rightarrow> nat \<times> byte list" where
  "grayscale_body d i s =
     (case s of (offset, newData) \<Rightarrow>
        (offset + 1,
         set_elem newData offset (luma (get_elem d i) (get_elem d (i + 1)) (get_elem d (i + 2)))))"

definition grayscale :: "RawImage \<Rightarrow> outcome option" where
  "grayscale this =
     (if channels this = 1 then Some (Returned this)
      else
        let newData = new_Uint8ClampedArray (width this * height this * 3) in
        if channels this = 3 \<or> channels this = 4 then
          do {
            (offset, newData') \<leftarrow>
              for_loop 0 (length (data this)) (channels this) (grayscale_body (data this))
                (0, newData);
            Some (Returned (update' this newData' (width this) (height this) (Some 1)))
          }
        else Some (Threw (UnsupportedChannelCount (channels this)) this))"

definition rgb_body1 :: "byte list \<Rightarrow> nat \<Rightarrow> nat \<times> byte list \<Rightarrow> nat \<times> byte list" where
  "rgb_body1 d i s =
     (case s of (offset, newData) \<Rightarrow>
        (offset + 3,
         set_elem (set_elem (set_elem newData offset (get_elem d i))
                     (offset + 1) (get_elem d i))
           (offset + 2) (get_elem d i)))"

definition rgb_body4 :: "byte list \<Rightarrow> nat \<Rightarrow> nat \<times> byte list \<Rightarrow> nat \<times> byte list" where
  "rgb_body4 d i s =
     (case s of (offset, newData) \<Rightarrow>
        (offset + 3,
         set_elem (set_elem (set_elem newData offset (get_elem d i))
                     (offset + 1) (get_elem d (i + 1)))
           (offset + 2) (get_elem d (i + 2))))"

definition rgb :: "RawImage \<Rightarrow> outcome option" where
  "rgb this =
     (if channels this = 3 then Some (Returned this)
      else
        let newData = new_Uint8ClampedArray (width this * height this * 3) in
        if channels this = 1 then
          do {
            (offset, newData') \<leftarrow>
              for_loop 0 (length (data this)) 1 (rgb_body1 (data this)) (0, newData);
            Some (Returned (update' this newData' (width this) (height this) (Some 3)))
          }
        else if channels this = 4 then
          do {
            (offset, newData') \<leftarrow>
              for_loop 0 (length (data this)) 4 (rgb_body4 (data this)) (0, newData);
            Some (Returned (update' this newData' (width this) (height this) (Some 3)))
          }
        else Some (Threw (UnsupportedChannelCount (channels this)) this))"

definition rgba_body1 :: "byte list \<Rightarrow> nat \<Rightarrow> nat \<times> byte list \<Rightarrow> nat \<times> byte list" where
  "rgba_body1 d i s =
     (case s of (offset, newData) \<Rightarrow>
        (offset + 4,
         set_elem (set_elem (set_elem (set_elem newData offset (get_elem d i))
                               (offset + 1) (get_elem d i))
                     (offset + 2) (get_elem d i))
           (offset + 3) (Some 255)))"

definition rgba_body3 :: "byte list \<Rightarrow> nat \<Rightarrow> nat \<times> byte list \<Rightarrow> nat \<times> byte list" where
  "rgba_body3 d i s =
     (case s of (offset, newData) \<Rightarrow>
        (offset + 4,
         set_elem (set_elem (set_elem (set_elem newData offset (get_elem d i))
                               (offset + 1) (get_elem d (i + 1)))
                     (offset + 2) (get_elem d (i + 2)))
           (offset + 3) (Some 255)))"

definition rgba :: "RawImage \<Rightarrow> outcome option" where
  "rgba this =
     (if channels this = 4 then Some (Returned this)
      else
        let newData = new_Uint8ClampedArray (width this * height this * 4) in
        if channels this = 1 then
          do {
            (offset, newData') \<leftarrow>
              for_loop 0 (length (data this)) 1 (rgba_body1 (data this)) (0, newData);
            Some (Returned (update' this newData' (width this) (height this) (Some 4)))
          }
        else if channels this = 3 then
          do {
            (offset, newData') \<leftarrow>
              for_loop 0 (length (data this)) 3 (rgba_body3 (data this)) (0, newData);
            Some (Returned (update' this newData' (width this) (height this) (Some 4)))
          }
        else Some (Threw (UnsupportedChannelCount (channels this)) this))"

text \<open>
  \<^verbatim>\<open>convert(numChannels)\<close>: the conversion called in a case works on \<^verbatim>\<open>this\<close>, and
  its exception, if any, propagates.
\<close>

definition convert :: "nat \<Rightarrow> RawImage \<Rightarrow> outcome option" where
  "convert numChannels this =
     (if channels this = numChannels then Some (Returned this)
      else if numChannels = 1 then grayscale this
      else if numChannels = 3 then rgb this
      else if numChannels = 4 then rgba this
      else Some (Threw (UnsupportedChannelCount (channels this)) this))"

text \<open>
  \<^verbatim>\<open>clone()\<close>: a new instance over \<^verbatim>\<open>this.data.slice()\<close>.  In this value model a copy
  of the bytes is the same list; the store model of the last section tells the two
  arrays apart.
\<close>

definition clone :: "RawImage \<Rightarrow> RawImage" where
  "clone this = new_RawImage (data this) (width this) (height this) (channels this)"

subsection \<open>The host environment\<close>

text \<open>
  A computation either never returns (\<open>None\<close>), throws (\<open>Some (Inl e)\<close>) or returns
  a value (\<open>Some (Inr v)\<close>).
\<close>

type_synonym 'a comp = "(error + 'a) option"

definition and_then :: "'a comp \<Rightarrow> ('a \<Rightarrow> 'b comp) \<Rightarrow> 'b comp" where
  "and_then m f = (case m of None \<Rightarrow> None | Some (Inl e) \<Rightarrow> Some (Inl e) | Some (Inr v) \<Rightarrow> f v)"

text \<open>The value of a call \<^verbatim>\<open>x.convert(n)\<close> on a new instance \<^verbatim>\<open>x\<close>: \<^verbatim>\<open>x\<close> itself.\<close>

definition instance_of :: "outcome option \<Rightarrow> RawImage comp" where
  "instance_of r =
     (case r of None \<Rightarrow> None
      | Some (Returned s) \<Rightarrow> Some (Inr s)
      | Some (Threw e s) \<Rightarrow> Some (Inl e))"

text \<open>
  The canvas API and the native raster library (sharp) are outside the repository.  A
  canvas is modelled by its size and the drawing calls made on its context, in order; a
  sharp pipeline by its raw input and the calls chained on it.  What the pixels are after
  those calls is the host's business: \<open>getImageData\<close> and \<open>loadImageFunction\<close> of the
  host record.
\<close>

datatype ImageData = ImageData "byte list" nat nat

datatype canvas = Canvas nat nat "canvas_call list"
and canvas_call =
    PutImageData ImageData rat rat
      \<comment> \<open>\<^verbatim>\<open>putImageData(imageData, dx, dy)\<close>\<close>
  | DrawImage5 canvas rat rat rat rat
      \<comment> \<open>\<^verbatim>\<open>drawImage(image, dx, dy, dWidth, dHeight)\<close>\<close>
  | DrawImage9 canvas rat rat rat rat rat rat rat rat
      \<comment> \<open>\<^verbatim>\<open>drawImage(image, sx, sy, sWidth, sHeight, dx, dy, dWidth, dHeight)\<close>\<close>

fun draw :: "canvas \<Rightarrow> canvas_call \<Rightarrow> canvas" where
  "draw (Canvas w h calls) c = Canvas w h (calls @ [c])"

datatype sharp_call =
    Affine "rat option" "rat option" string
      \<comment> \<open>\<^verbatim>\<open>affine([a, 0, 0, d], { interpolator })\<close>; \<open>None\<close> is a quotient by zero\<close>
  | ResizeFill nat nat string
      \<comment> \<open>\<^verbatim>\<open>resize({ width, height, fit: 'fill', kernel })\<close>\<close>
  | Extend int int int int
      \<comment> \<open>\<^verbatim>\<open>extend({ left, right, top, bottom })\<close>\<close>
  | Extract int int nat nat
      \<comment> \<open>\<^verbatim>\<open>extract({ left, top, width, height })\<close>\<close>

datatype sharp = Sharp RawImage "sharp_call list"
  \<comment> \<open>\<^verbatim>\<open>sharp(this.data, { raw: { width, height, channels } })\<close> and the calls chained on it\<close>

record host =
  IS_REACT_NATIVE :: bool
  BROWSER_ENV :: bool
  polyfill_present :: bool
    \<comment> \<open>\<^verbatim>\<open>typeof document !== 'undefined' && typeof Image !== 'undefined'\<close>\<close>
  ImageData_present :: bool
    \<comment> \<open>\<^verbatim>\<open>global.ImageData\<close>, \<^verbatim>\<open>self.ImageData\<close> is defined\<close>
  OffscreenCanvas_present :: bool
  useGCanvas :: bool
    \<comment> \<open>\<^verbatim>\<open>env.useGCanvas\<close>\<close>
  getImageData :: "canvas \<Rightarrow> nat \<Rightarrow> nat \<Rightarrow> byte list"
    \<comment> \<open>\<^verbatim>\<open>ctx.getImageData(0, 0, w, h).data\<close>\<close>
  loadImageFunction :: "sharp \<Rightarrow> string + RawImage"
    \<comment> \<open>\<^verbatim>\<open>img.raw().toBuffer(...)\<close>: a rejection, or the new instance over the result\<close>
  transpose_data :: "byte list \<Rightarrow> nat list \<Rightarrow> nat list \<Rightarrow> byte list"
  interpolate_data :: "byte list \<Rightarrow> nat list \<Rightarrow> nat list \<Rightarrow> byte list"
    \<comment> \<open>both of \<^verbatim>\<open>./maths.js\<close>\<close>

text \<open>The module-level bindings, set once when the module is loaded.\<close>

definition createCanvasFunction_defined :: "host \<Rightarrow> bool" where
  "createCanvasFunction_defined env =
     (if IS_REACT_NATIVE env then polyfill_present env else BROWSER_ENV env)"

definition ImageDataClass_defined :: "host \<Rightarrow> bool" where
  "ImageDataClass_defined env =
     (if IS_REACT_NATIVE env then polyfill_present env \<and> ImageData_present env
      else BROWSER_ENV env \<and> ImageData_present env)"

definition createCanvasFunction :: "host \<Rightarrow> nat \<Rightarrow> nat \<Rightarrow> error + canvas" where
  "createCanvasFunction env w h =
     (if \<not> createCanvasFunction_defined env
      then Inl (TypeError ''createCanvasFunction is not a function'')
      else if IS_REACT_NATIVE env then Inr (Canvas w h [])
      else if OffscreenCanvas_present env then Inr (Canvas w h [])
      else Inl (BackendCapabilityMissing ''OffscreenCanvas not supported by this browser.''))"

definition await_loadImageFunction :: "host \<Rightarrow> sharp \<Rightarrow> RawImage comp" where
  "await_loadImageFunction env img =
     (case loadImageFunction env img of
        Inl message \<Rightarrow> Some (Inl (BackendError message))
      | Inr loaded \<Rightarrow> Some (Inr loaded))"

definition new_ImageDataClass :: "host \<Rightarrow> byte list \<Rightarrow> nat \<Rightarrow> nat \<Rightarrow> error + ImageData" where
  "new_ImageDataClass env d w h =
     (if ImageDataClass_defined env then Inr (ImageData d w h)
      else Inl (TypeError ''ImageDataClass is not a constructor''))"

definition toImageData :: "host \<Rightarrow> RawImage \<Rightarrow> ImageData comp" where
  "toImageData env this =
     (if IS_REACT_NATIVE env \<and> \<not> ImageDataClass_defined env
      then Some (Inl (BackendCapabilityMissing ''toImageData is not supported''))
      else and_then (instance_of (rgba (clone this)))
             (\<lambda>cloned. Some (new_ImageDataClass env (data cloned) (width cloned) (height cloned))))"

definition toCanvas :: "host \<Rightarrow> RawImage \<Rightarrow> canvas comp" where
  "toCanvas env this =
     (if IS_REACT_NATIVE env \<and> \<not> createCanvasFunction_defined env
      then Some (Inl (BackendCapabilityMissing ''toCanvas is not supported''))
      else and_then (instance_of (rgba (clone this)))
             (\<lambda>cloned.
                and_then (Some (createCanvasFunction env (width cloned) (height cloned)))
                  (\<lambda>clonedCanvas.
                     and_then (Some (new_ImageDataClass env (data cloned) (width cloned)
                                       (height cloned)))
                       (\<lambda>d. Some (Inr (draw clonedCanvas (PutImageData d 0 0)))))))"

subsection \<open>resize\<close>

text \<open>
  \<^verbatim>\<open>RESAMPLING_MAPPING\<close> is an object literal with the keys 0 to 5.  A property key is a
  string, so the number 0 and the string \<^verbatim>\<open>'0'\<close> name the same property.  (A name
  inherited from \<^verbatim>\<open>Object.prototype\<close> gives a value that is no string; it reaches the
  default case of the switch, as the name itself does.)
\<close>

definition RESAMPLING_MAPPING :: "resample \<Rightarrow> string option" where
  "RESAMPLING_MAPPING key =
     (if key = Code 0 \<or> key = Name ''0'' then Some ''nearest''
      else if key = Code 1 \<or> key = Name ''1'' then Some ''lanczos''
      else if key = Code 2 \<or> key = Name ''2'' then Some ''bilinear''
      else if key = Code 3 \<or> key = Name ''3'' then Some ''bicubic''
      else if key = Code 4 \<or> key = Name ''4'' then Some ''box''
      else if key = Code 5 \<or> key = Name ''5'' then Some ''hamming''
      else None)"

text \<open>\<^verbatim>\<open>a / b\<close> on numbers: a quotient by zero is not finite.\<close>

definition js_div :: "nat \<Rightarrow> nat \<Rightarrow> rat option" where
  "js_div a b = (if b = 0 then None else Some (of_nat a / of_nat b))"

text \<open>
  The switch of the sharp branch: the messages of \<^verbatim>\<open>console.warn\<close>, and the pipeline
  or the exception.  The cases \<^verbatim>\<open>'box'\<close> and \<^verbatim>\<open>'hamming'\<close> set \<^verbatim>\<open>resampleMethod\<close> to
  \<^verbatim>\<open>'bilinear'\<close> and fall through to the affine transform.
\<close>

definition resize_sharp :: "RawImage \<Rightarrow> nat \<Rightarrow> nat \<Rightarrow> resample \<Rightarrow> string list \<times> (error + sharp)" where
  "resize_sharp this w h resampleMethod =
     (let img = Sharp this [];
          affine = (\<lambda>interpolator.
             Sharp this [Affine (js_div w (width this)) (js_div h (height this)) interpolator])
      in
      if resampleMethod = Name ''box'' \<or> resampleMethod = Name ''hamming'' then
        ([''Resampling method '' @ (case resampleMethod of Name s \<Rightarrow> s | Code n \<Rightarrow> [])
            @ '' is not yet supported. Using bilinear instead.''],
         Inr (affine ''bilinear''))
      else if resampleMethod = Name ''nearest'' then ([], Inr (affine ''nearest''))
      else if resampleMethod = Name ''bilinear'' then ([], Inr (affine ''bilinear''))
      else if resampleMethod = Name ''bicubic'' then ([], Inr (affine ''bicubic''))
      else if resampleMethod = Name ''lanczos'' then
        ([], Inr (Sharp this [ResizeFill w h ''lanczos3'']))
      else ([], Inl (UnsupportedResampleMethod resampleMethod)))"

text \<open>
  \<^verbatim>\<open>resize(width, height, { resample = 2 })\<close>.  The result is the console output and the
  computation of the returned instance.
\<close>

definition resize ::
  "host \<Rightarrow> RawImage \<Rightarrow> nat \<Rightarrow> nat \<Rightarrow> resample \<Rightarrow> string list \<times> RawImage comp" where
  "resize env this w h resample =
     (let resampleMethod =
            (case RESAMPLING_MAPPING resample of Some name \<Rightarrow> Name name | None \<Rightarrow> resample)
      in
      if IS_REACT_NATIVE env then
        if createCanvasFunction_defined env \<and> useGCanvas env then
          ([],
           and_then (Some (createCanvasFunction env (width this) (height this)))
             (\<lambda>canvas.
                and_then (toImageData env this)
                  (\<lambda>imageData.
                     let canvas1 = draw canvas (PutImageData imageData 0 0);
                         canvas2 = draw canvas1
                           (DrawImage9 canvas1 0 0 (of_nat (width this)) (of_nat (height this))
                              0 0 (of_nat w) (of_nat h));
                         resized = new_RawImage (getImageData env canvas2 w h) w h 4
                     in instance_of (convert (channels this) resized))))
        else
          (let trsnsposed = transpose_data env (data this)
                 [width this, height this, channels this] [2, 0, 1];
               resized = interpolate_data env trsnsposed
                 [channels this, height this, width this] [h, w];
               newData = transpose_data env resized [channels this, h, w] [1, 2, 0]
           in ([], Some (Inr (new_RawImage newData w h (channels this)))))
      else if BROWSER_ENV env then
        ([],
         let numChannels = channels this in
         and_then (toCanvas env this)
           (\<lambda>canvas.
              and_then (Some (createCanvasFunction env w h))
                (\<lambda>target.
                   let ctx = draw target (DrawImage5 canvas 0 0 (of_nat w) (of_nat h));
                       resizedImage = new_RawImage (getImageData env ctx w h) w h 4
                   in instance_of (convert numChannels resizedImage))))
      else
        (case resize_sharp this w h resampleMethod of
           (console, Inl e) \<Rightarrow> (console, Some (Inl e))
         | (console, Inr img) \<Rightarrow> (console, await_loadImageFunction env img)))"

subsection \<open>pad\<close>

text \<open>
  The body of the loop of the branch without canvas; the state is \<^verbatim>\<open>paddedData\<close>.
  \<open>this_width\<close> is \<^verbatim>\<open>this.width\<close>, \<open>w\<close> the new width.  With \<^verbatim>\<open>this.width\<close> zero,
  \<^verbatim>\<open>x\<close> is NaN, so is \<^verbatim>\<open>pixelIndex\<close>, and the writes are dropped.
\<close>

definition pad_body :: "byte list \<Rightarrow> nat \<Rightarrow> nat \<Rightarrow> nat \<Rightarrow> nat \<Rightarrow> byte list \<Rightarrow> byte list" where
  "pad_body d c this_width w i paddedData =
     (if this_width = 0 then paddedData
      else
        let x = (i div c) mod this_width;
            y = (i div c) div this_width;
            pixelIndex = (y * w + x) * c
        in fold (\<lambda>j pd. set_elem pd (pixelIndex + j) (get_elem d (i + j))) [0..<c] paddedData)"

definition pad :: "host \<Rightarrow> RawImage \<Rightarrow> int \<times> int \<times> int \<times> int \<Rightarrow> RawImage comp" where
  "pad env this offsets =
     (case offsets of (left0, right0, top0, bottom0) \<Rightarrow>
      let left = max left0 0; right = max right0 0; top = max top0 0; bottom = max bottom0 0 in
      if left = 0 \<and> right = 0 \<and> top = 0 \<and> bottom = 0 then Some (Inr this)
      else
        let newWidth = width this + nat left + nat right;
            newHeight = height this + nat top + nat bottom
        in
        if IS_REACT_NATIVE env then
          if createCanvasFunction_defined env \<and> useGCanvas env then
            and_then (Some (createCanvasFunction env newWidth newHeight))
              (\<lambda>canvas.
                 and_then (toImageData env this)
                   (\<lambda>imageData.
                      let ctx = draw canvas (PutImageData imageData (of_int left) (of_int top));
                          padded = new_RawImage (getImageData env ctx newWidth newHeight)
                                     newWidth newHeight 4
                      in instance_of (convert (channels this) padded)))
          else
            (let paddedData = new_Uint8ClampedArray (newWidth * newHeight * channels this) in
             case for_loop 0 (length (data this)) (channels this)
                    (pad_body (data this) (channels this) (width this) newWidth) paddedData of
               None \<Rightarrow> None
             | Some paddedData' \<Rightarrow>
                 Some (Inr (new_RawImage paddedData' newWidth newHeight (channels this))))
        else if BROWSER_ENV env then
          (let numChannels = channels this in
           and_then (toCanvas env this)
             (\<lambda>canvas.
                and_then (Some (createCanvasFunction env newWidth newHeight))
                  (\<lambda>target.
                     let ctx = draw target
                           (DrawImage9 canvas 0 0 (of_nat (width this)) (of_nat (height this))
                              (of_int left) (of_int top) (of_nat newWidth) (of_nat newHeight));
                         paddedImage = new_RawImage (getImageData env ctx newWidth newHeight)
                                         newWidth newHeight 4
                     in instance_of (convert numChannels paddedImage))))
        else
          await_loadImageFunction env (Sharp this [Extend left right top bottom]))"

subsection \<open>center_crop\<close>

text \<open>
  The body of the loop of the branch without canvas; the state is \<^verbatim>\<open>croppedData\<close>.
  The offsets are halves of integers, and \<^verbatim>\<open>pixelIndex\<close> is computed from them as it
  stands: it need not be an integer.
\<close>

definition crop_body ::
  "byte list \<Rightarrow> nat \<Rightarrow> nat \<Rightarrow> nat \<Rightarrow> rat \<Rightarrow> rat \<Rightarrow> nat \<Rightarrow> byte list \<Rightarrow> byte list" where
  "crop_body d c this_width crop_width width_offset height_offset i croppedData =
     (let x = (i div c) mod crop_width;
          y = (i div c) div crop_width;
          pixelIndex = ((of_nat y + height_offset) * of_nat this_width
                          + (of_nat x + width_offset)) * of_nat c
      in fold (\<lambda>j cd. set_elem cd (i + j) (get_elem_num d (pixelIndex + of_nat j))) [0..<c]
           croppedData)"

definition center_crop :: "host \<Rightarrow> RawImage \<Rightarrow> nat \<Rightarrow> nat \<Rightarrow> RawImage comp" where
  "center_crop env this crop_width crop_height =
     (if width this = crop_width \<and> height this = crop_height then Some (Inr this)
      else
        let width_offset = (of_nat (width this) - of_nat crop_width) / (2 :: rat);
            height_offset = (of_nat (height this) - of_nat crop_height) / (2 :: rat)
        in
        if IS_REACT_NATIVE env then
          if createCanvasFunction_defined env \<and> useGCanvas env then
            and_then (Some (createCanvasFunction env crop_width crop_height))
              (\<lambda>canvas.
                 and_then (toImageData env this)
                   (\<lambda>imageData.
                      let ctx = draw canvas (PutImageData imageData (- width_offset) (- height_offset));
                          cropped = new_RawImage (getImageData env ctx crop_width crop_height)
                                      crop_width crop_height 4
                      in instance_of (convert (channels this) cropped)))
          else
            (let croppedData = new_Uint8ClampedArray (crop_width * crop_height * channels this) in
             case for_loop 0 (length croppedData) (channels this)
                    (crop_body (data this) (channels this) (width this) crop_width
                       width_offset height_offset) croppedData of
               None \<Rightarrow> None
             | Some croppedData' \<Rightarrow>
                 Some (Inr (new_RawImage croppedData' crop_width crop_height (channels this))))
        else if BROWSER_ENV env then
          (let numChannels = channels this in
           and_then (toCanvas env this)
             (\<lambda>canvas.
                and_then (Some (createCanvasFunction env crop_width crop_height))
                  (\<lambda>target.
                     let sourceX = (if 0 \<le> width_offset then width_offset else 0);
                         destX = (if 0 \<le> width_offset then 0 else - width_offset);
                         sourceY = (if 0 \<le> height_offset then height_offset else 0);
                         destY = (if 0 \<le> height_offset then 0 else - height_offset);
                         ctx = draw target
                           (DrawImage9 canvas sourceX sourceY (of_nat crop_width) (of_nat crop_height)
                              destX destY (of_nat crop_width) (of_nat crop_height));
                         resizedImage = new_RawImage (getImageData env ctx crop_width crop_height)
                                          crop_width crop_height 4
                     in instance_of (convert numChannels resizedImage))))
        else
          (let img =
             (if 0 \<le> width_offset \<and> 0 \<le> height_offset then
                Sharp this [Extract \<lfloor>width_offset\<rfloor> \<lfloor>height_offset\<rfloor> crop_width crop_height]
              else if width_offset \<le> 0 \<and> height_offset \<le> 0 then
                (let top = \<lfloor>- height_offset\<rfloor>; left = \<lfloor>- width_offset\<rfloor> in
                 Sharp this [Extend left (int crop_width - int (width this) - left)
                               top (int crop_height - int (height this) - top)])
              else
                (let y_padding0 = (if height_offset < 0 then \<lfloor>- height_offset\<rfloor> else 0);
                     y_padding1 = (if height_offset < 0
                                   then int crop_height - int (height this) - y_padding0 else 0);
                     y_extract = (if height_offset < 0 then 0 else \<lfloor>height_offset\<rfloor>);
                     x_padding0 = (if width_offset < 0 then \<lfloor>- width_offset\<rfloor> else 0);
                     x_padding1 = (if width_offset < 0
                                   then int crop_width - int (width this) - x_padding0 else 0);
                     x_extract = (if width_offset < 0 then 0 else \<lfloor>width_offset\<rfloor>)
                 in Sharp this [Extend x_padding0 x_padding1 y_padding0 y_padding1,
                                Extract x_extract y_extract crop_width crop_height]))
           in await_loadImageFunction env img))"

subsection \<open>Instances and arrays in a store\<close>

text \<open>
  Whether two instances share their bytes cannot be read off the value model.  Here an
  instance is an object whose \<^verbatim>\<open>data\<close> field holds the address of an array; addresses
  are positions in the lists of the store, and allocation appends.  \<open>view\<close> reads an
  object back as a value of the model above.
\<close>

record object =
  data_ref :: nat
  o_width :: nat
  o_height :: nat
  o_channels :: nat

record store =
  arrays :: "byte list list"
  objects :: "object list"

definition view :: "store \<Rightarrow> nat \<Rightarrow> RawImage" where
  "view st r =
     (let ob = objects st ! r in
      \<lparr>data = arrays st ! data_ref ob, width = o_width ob, height = o_height ob,
       channels = o_channels ob\<rparr>)"

definition new_array :: "store \<Rightarrow> byte list \<Rightarrow> nat \<times> store" where
  "new_array st bytes = (length (arrays st), st\<lparr>arrays := arrays st @ [bytes]\<rparr>)"

definition new_object :: "store \<Rightarrow> object \<Rightarrow> nat \<times> store" where
  "new_object st ob = (length (objects st), st\<lparr>objects := objects st @ [ob]\<rparr>)"

text \<open>\<^verbatim>\<open>clone()\<close>: \<^verbatim>\<open>this.data.slice()\<close> is a new array with the same bytes.\<close>

definition clone_in_store :: "store \<Rightarrow> nat \<Rightarrow> nat \<times> store" where
  "clone_in_store st this =
     (let ob = objects st ! this;
          (sliced, st1) = new_array st (arrays st ! data_ref ob)
      in new_object st1
           \<lparr>data_ref = sliced, o_width = o_width ob, o_height = o_height ob,
            o_channels = o_channels ob\<rparr>)"

text \<open>\<^verbatim>\<open>_update\<close> assigns the fields of \<^verbatim>\<open>this\<close>.\<close>

definition update_in_store :: "store \<Rightarrow> nat \<Rightarrow> nat \<Rightarrow> nat \<Rightarrow> nat \<Rightarrow> nat option \<Rightarrow> store" where
  "update_in_store st this d w h c =
     (let ob = (objects st ! this)\<lparr>data_ref := d, o_width := w, o_height := h\<rparr>;
          ob' = (case c of Some n \<Rightarrow> ob\<lparr>o_channels := n\<rparr> | None \<Rightarrow> ob)
      in st\<lparr>objects := (objects st)[this := ob']\<rparr>)"

text \<open>
  A conversion (\<^verbatim>\<open>grayscale\<close>, \<^verbatim>\<open>rgb\<close>, \<^verbatim>\<open>rgba\<close>, \<^verbatim>\<open>convert\<close>) reads \<^verbatim>\<open>this.data\<close>,
  writes only the array \<^verbatim>\<open>newData\<close> that it has just allocated, and ends in
  \<^verbatim>\<open>_update\<close>, which stores the address of \<^verbatim>\<open>newData\<close> in \<^verbatim>\<open>this.data\<close>.  In the store
  \<^verbatim>\<open>newData\<close> is a new array with the bytes the value model computes.  A conversion
  that returns at once (the channel count is already the one asked for) or throws
  assigns nothing.
\<close>

definition conversion_in_store ::
  "(RawImage \<Rightarrow> outcome option) \<Rightarrow> store \<Rightarrow> nat \<Rightarrow> (error option \<times> store) option" where
  "conversion_in_store conversion st this =
     (case conversion (view st this) of
        None \<Rightarrow> None
      | Some (Threw e s) \<Rightarrow> Some (Some e, st)
      | Some (Returned s) \<Rightarrow>
          if channels s = channels (view st this) then Some (None, st)
          else
            let (newData, st1) = new_array st (data s)
            in Some (None, update_in_store st1 this newData (width s) (height s)
                             (Some (channels s))))"

text \<open>\<^verbatim>\<open>toImageData()\<close> and \<^verbatim>\<open>toCanvas()\<close> work on \<^verbatim>\<open>this.clone().rgba()\<close>.\<close>

definition toImageData_in_store :: "host \<Rightarrow> store \<Rightarrow> nat \<Rightarrow> ((error + ImageData) \<times> store) option" where
  "toImageData_in_store env st this =
     (if IS_REACT_NATIVE env \<and> \<not> ImageDataClass_defined env
      then Some (Inl (BackendCapabilityMissing ''toImageData is not supported''), st)
      else
        let (cloned, st1) = clone_in_store st this in
        case conversion_in_store rgba st1 cloned of
          None \<Rightarrow> None
        | Some (Some e, st2) \<Rightarrow> Some (Inl e, st2)
        | Some (None, st2) \<Rightarrow>
            Some (new_ImageDataClass env (data (view st2 cloned)) (width (view st2 cloned))
                    (height (view st2 cloned)), st2))"

definition toCanvas_in_store :: "host \<Rightarrow> store \<Rightarrow> nat \<Rightarrow> ((error + canvas) \<times> store) option" where
  "toCanvas_in_store env st this =
     (if IS_REACT_NATIVE env \<and> \<not> createCanvasFunction_defined env
      then Some (Inl (BackendCapabilityMissing ''toCanvas is not supported''), st)
      else
        let (cloned, st1) = clone_in_store st this in
        case conversion_in_store rgba st1 cloned of
          None \<Rightarrow> None
        | Some (Some e, st2) \<Rightarrow> Some (Inl e, st2)
        | Some (None, st2) \<Rightarrow>
            (case createCanvasFunction env (width (view st2 cloned)) (height (view st2 cloned)) of
               Inl e \<Rightarrow> Some (Inl e, st2)
             | Inr clonedCanvas \<Rightarrow>
                 (case new_ImageDataClass env (data (view st2 cloned)) (width (view st2 cloned))
                         (height (view st2 cloned)) of
                    Inl e \<Rightarrow> Some (Inl e, st2)
                  | Inr d \<Rightarrow> Some (Inr (draw clonedCanvas (PutImageData d 0 0)), st2))))"

subsection \<open>Predicates of the statements\<close>

text \<open>Every pixel of a 3-channel buffer of \<open>m\<close> pixels has three equal components.\<close>

definition gray_pixels :: "nat \<Rightarrow> byte list \<Rightarrow> bool" where
  "gray_pixels m d \<longleftrightarrow>
     (\<forall>p<m. d ! (3 * p) = d ! (3 * p + 1) \<and> d ! (3 * p + 1) = d ! (3 * p + 2))"

text \<open>What a call leaves alone: the arrays and the objects that were there before.\<close>

definition extends :: "store \<Rightarrow> store \<Rightarrow> nat \<Rightarrow> bool" where
  "extends st st' changed \<longleftrightarrow>
     length (arrays st) \<le> length (arrays st') \<and> length (objects st) \<le> length (objects st')
     \<and> (\<forall>a < length (arrays st). arrays st' ! a = arrays st ! a)
     \<and> (\<forall>r < length (objects st). r \<noteq> changed \<longrightarrow> objects st' ! r = objects st ! r)"

subsection \<open>Hosts for the examples\<close>

text \<open>
  Three hosts at which the theorems below are instantiated: a browser whose canvases
  read back as transparent black, a React Native process without the canvas polyfill,
  and a Node.js process whose raster library hands back its raw input.
\<close>

definition example_browser :: host where
  "example_browser =
     \<lparr>IS_REACT_NATIVE = False, BROWSER_ENV = True, polyfill_present = False,
      ImageData_present = True, OffscreenCanvas_present = True, useGCanvas = True,
      getImageData = (\<lambda>c w h. replicate (4 * w * h) 0),
      loadImageFunction = (\<lambda>img. Inl ''sharp is empty in a browser''),
      transpose_data = (\<lambda>d shape axes. d), interpolate_data = (\<lambda>d shape size. d)\<rparr>"

definition example_react_native :: host where
  "example_react_native =
     \<lparr>IS_REACT_NATIVE = True, BROWSER_ENV = False, polyfill_present = False,
      ImageData_present = False, OffscreenCanvas_present = False, useGCanvas = True,
      getImageData = (\<lambda>c w h. []),
      loadImageFunction = (\<lambda>img. Inl ''sharp is empty in React Native''),
      transpose_data = (\<lambda>d shape axes. d), interpolate_data = (\<lambda>d shape size. d)\<rparr>"

definition example_node :: host where
  "example_node =
     \<lparr>IS_REACT_NATIVE = False, BROWSER_ENV = False, polyfill_present = False,
      ImageData_present = False, OffscreenCanvas_present = False, useGCanvas = True,
      getImageData = (\<lambda>c w h. []),
      loadImageFunction = (\<lambda>img. case img of Sharp raw calls \<Rightarrow> Inr raw),
      transpose_data = (\<lambda>d shape axes. d), interpolate_data = (\<lambda>d shape size. d)\<rparr>"

text \<open>A store with one 1 by 1 RGB instance, at address 0.\<close>

definition example_store :: store where
  "example_store =
     \<lparr>arrays = [[10, 20, 30]],
      objects = [\<lparr>data_ref = 0, o_width = 1, o_height = 1, o_channels = 3\<rparr>]\<rparr>"

section \<open>Properties\<close>

subsection \<open>The for statement returns when the stride is positive\<close>

text \<open>
  Total correctness of the loop by an invariant \<open>P\<close> over the loop variable and the
  state: with a positive stride the loop returns, in a state that satisfies the
  invariant at an index past the bound.
\<close>

lemma for_loop_rule:
  assumes c: "0 < c"
    and init: "P i s"
    and step: "\<And>j t. P j t \<Longrightarrow> j < n \<Longrightarrow> P (j + c) (body j t)"
  shows "\<exists>t j. for_loop i n c body s = Some t \<and> P j t \<and> n \<le> j"
  using init
proof (induction "n - i" arbitrary: i s rule: less_induct)
  case less
  show ?case
  proof (cases "i < n")
    case True
    have "n - (i + c) < n - i" using True c by arith
    from less.hyps [OF this step [OF less.prems True]]
    obtain t j where "for_loop (i + c) n c body (body i s) = Some t" "P j t" "n \<le> j"
      by blast
    then show ?thesis using True by (subst for_loop.simps) auto
  next
    case False
    then show ?thesis using less.prems by (subst for_loop.simps) auto
  qed
qed

text \<open>With the stride 0 the loop returns only if it is never entered.\<close>

lemma for_loop_zero_stride:
  assumes "for_loop i n c body s = Some t"
  shows "c = 0 \<longrightarrow> \<not> i < n"
proof (rule for_loop.raw_induct [where P = "\<lambda>i n c body s t. c = 0 \<longrightarrow> \<not> i < n", OF _ assms])
  fix loop :: "nat \<Rightarrow> nat \<Rightarrow> nat \<Rightarrow> (nat \<Rightarrow> 'a \<Rightarrow> 'a) \<Rightarrow> 'a \<Rightarrow> 'a option"
    and i n c body s t
  assume ih: "\<And>i n c body s t. loop i n c body s = Some t \<Longrightarrow> c = 0 \<longrightarrow> \<not> i < n"
    and step: "(if i < n then loop (i + c) n c body (body i s) else Some s) = Some t"
  show "c = 0 \<longrightarrow> \<not> i < n"
  proof (intro impI notI)
    assume "c = 0" "i < n"
    with step have "loop i n 0 body (body i s) = Some t" by simp
    from ih [OF this] \<open>i < n\<close> show False by simp
  qed
qed

lemma for_loop_never_returns: "i < n \<Longrightarrow> for_loop i n 0 body s = None"
  using for_loop_zero_stride [of i n 0 body s] by (cases "for_loop i n 0 body s") auto

subsection \<open>The luma formula in binary64\<close>

text \<open>
  The products and the sums are rounded as doubles.  For red 0, green 36 and blue 12 the
  formula has the exact value 22.5; the double sum lies just below it, and the byte
  stored is 22.
\<close>

lemma luma_below_tie: "luma (Some 0) (Some 36) (Some 12) = Some 22"
  by code_simp

subsection \<open>The conversions return\<close>

lemma length_set_elem [simp]: "length (set_elem a i v) = length a"
  by (simp add: set_elem_def)

lemma length_new_Uint8ClampedArray [simp]: "length (new_Uint8ClampedArray n) = n"
  by (simp add: new_Uint8ClampedArray_def)

lemma set_elem_nth:
  "set_elem a i v ! k =
     (if k = i \<and> i < length a then (case v of Some b \<Rightarrow> b | None \<Rightarrow> 0) else a ! k)"
  by (simp add: set_elem_def)

lemma grayscale_returns:
  assumes "channels this = 3 \<or> channels this = 4"
  shows "\<exists>d. grayscale this = Some (Returned (this\<lparr>data := d, channels := 1\<rparr>))
             \<and> length d = width this * height this * 3"
proof -
  let ?P = "\<lambda>(j::nat) (s :: nat \<times> byte list). length (snd s) = width this * height this * 3"
  have "\<exists>t j. for_loop 0 (length (data this)) (channels this) (grayscale_body (data this))
                 (0, new_Uint8ClampedArray (width this * height this * 3)) = Some t
               \<and> ?P j t \<and> length (data this) \<le> j"
  proof (rule for_loop_rule)
    show "0 < channels this" using assms by auto
    show "?P 0 (0, new_Uint8ClampedArray (width this * height this * 3))" by simp
    show "\<And>j t. ?P j t \<Longrightarrow> j < length (data this) \<Longrightarrow>
            ?P (j + channels this) (grayscale_body (data this) j t)"
      by (auto simp: grayscale_body_def)
  qed
  then obtain off d where
    "for_loop 0 (length (data this)) (channels this) (grayscale_body (data this))
       (0, new_Uint8ClampedArray (width this * height this * 3)) = Some (off, d)"
    "length d = width this * height this * 3"
    by auto
  then show ?thesis using assms
    by (auto simp: grayscale_def update'_def Let_def)
qed

lemma rgba_returns:
  assumes "channels this = 1 \<or> channels this = 3"
  shows "\<exists>d. rgba this = Some (Returned (this\<lparr>data := d, channels := 4\<rparr>))
             \<and> length d = width this * height this * 4"
proof -
  let ?n = "width this * height this * 4"
  let ?P = "\<lambda>(j::nat) (s :: nat \<times> byte list). length (snd s) = ?n"
  show ?thesis
  proof (cases "channels this = 1")
    case True
    have "\<exists>t j. for_loop 0 (length (data this)) 1 (rgba_body1 (data this))
                   (0, new_Uint8ClampedArray ?n) = Some t
                 \<and> ?P j t \<and> length (data this) \<le> j"
      by (rule for_loop_rule) (auto simp: rgba_body1_def)
    then obtain off d where
      "for_loop 0 (length (data this)) 1 (rgba_body1 (data this))
         (0, new_Uint8ClampedArray ?n) = Some (off, d)" "length d = ?n"
      by auto
    then show ?thesis using True
      by (auto simp: rgba_def update'_def Let_def)
  next
    case False
    with assms have c: "channels this = 3" by simp
    have "\<exists>t j. for_loop 0 (length (data this)) 3 (rgba_body3 (data this))
                   (0, new_Uint8ClampedArray ?n) = Some t
                 \<and> ?P j t \<and> length (data this) \<le> j"
      by (rule for_loop_rule) (auto simp: rgba_body3_def)
    then obtain off d where
      "for_loop 0 (length (data this)) 3 (rgba_body3 (data this))
         (0, new_Uint8ClampedArray ?n) = Some (off, d)" "length d = ?n"
      by auto
    then show ?thesis using c
      by (auto simp: rgba_def update'_def Let_def)
  qed
qed

lemma rgb_body1_keeps_gray:
  assumes len: "length nd = 3 * m" and g: "gray_pixels m nd"
  shows "gray_pixels m (snd (rgb_body1 d j (3 * j, nd)))"
  unfolding gray_pixels_def
proof (intro allI impI)
  fix p assume p: "p < m"
  from g p have eq: "nd ! (3 * p) = nd ! (3 * p + 1)" "nd ! (3 * p + 1) = nd ! (3 * p + 2)"
    by (auto simp: gray_pixels_def)
  show "snd (rgb_body1 d j (3 * j, nd)) ! (3 * p) = snd (rgb_body1 d j (3 * j, nd)) ! (3 * p + 1)
      \<and> snd (rgb_body1 d j (3 * j, nd)) ! (3 * p + 1) = snd (rgb_body1 d j (3 * j, nd)) ! (3 * p + 2)"
  proof (cases "p = j")
    case True
    with p len show ?thesis
      by (simp add: rgb_body1_def set_elem_nth)
  next
    case False
    then have "3 * p \<noteq> 3 * j" "3 * p \<noteq> 3 * j + 1" "3 * p \<noteq> 3 * j + 2"
      "3 * p + 1 \<noteq> 3 * j" "3 * p + 1 \<noteq> 3 * j + 1" "3 * p + 1 \<noteq> 3 * j + 2"
      "3 * p + 2 \<noteq> 3 * j" "3 * p + 2 \<noteq> 3 * j + 1" "3 * p + 2 \<noteq> 3 * j + 2"
      by presburger+
    with eq show ?thesis
      by (simp add: rgb_body1_def set_elem_nth)
  qed
qed

lemma rgb_from_gray_returns:
  assumes "channels this = 1"
  shows "\<exists>d. rgb this = Some (Returned (this\<lparr>data := d, channels := 3\<rparr>))
             \<and> length d = width this * height this * 3
             \<and> gray_pixels (width this * height this) d"
proof -
  let ?m = "width this * height this"
  let ?P = "\<lambda>(j::nat) (s :: nat \<times> byte list).
              fst s = 3 * j \<and> length (snd s) = 3 * ?m \<and> gray_pixels ?m (snd s)"
  have "\<exists>t j. for_loop 0 (length (data this)) 1 (rgb_body1 (data this))
                 (0, new_Uint8ClampedArray (?m * 3)) = Some t
               \<and> ?P j t \<and> length (data this) \<le> j"
  proof (rule for_loop_rule)
    show "0 < (1::nat)" by simp
    show "?P 0 (0, new_Uint8ClampedArray (?m * 3))"
      by (simp add: gray_pixels_def new_Uint8ClampedArray_def)
    fix j t assume inv: "?P j t" and "j < length (data this)"
    obtain off nd where t: "t = (off, nd)" by (cases t)
    with inv have off: "off = 3 * j" and len: "length nd = 3 * ?m" and g: "gray_pixels ?m nd"
      by simp_all
    from rgb_body1_keeps_gray [OF len g, of "data this" j]
    show "?P (j + 1) (rgb_body1 (data this) j t)"
      using len by (simp add: t off) (simp add: rgb_body1_def)
  qed
  then obtain off d where
    "for_loop 0 (length (data this)) 1 (rgb_body1 (data this))
       (0, new_Uint8ClampedArray (?m * 3)) = Some (off, d)"
    "length d = 3 * ?m" "gray_pixels ?m d"
    by auto
  then show ?thesis using assms
    by (auto simp: rgb_def update'_def Let_def)
qed

subsection \<open>The length of the data after grayscale\<close>

text \<open>
  C1.  The claim is that every transform leaves \<open>length data = width * height *
  channels\<close>.  \<^verbatim>\<open>grayscale\<close> allocates \<^verbatim>\<open>width * height * 3\<close> bytes for its one-channel
  result: from 3 or 4 channels it returns, with the width and height kept and one
  channel, over data three times as long as the invariant asks.
\<close>

theorem grayscale_data_length:
  assumes "channels this = 3 \<or> channels this = 4"
  shows "\<exists>out. grayscale this = Some (Returned out)
           \<and> width out = width this \<and> height out = height this \<and> channels out = 1
           \<and> length (data out) = 3 * (width out * height out * channels out)"
  using grayscale_returns [OF assms] by auto

theorem grayscale_data_length_witness:
  "\<exists>out. grayscale \<lparr>data = [10, 20, 30], width = 1, height = 1, channels = 3\<rparr>
            = Some (Returned out)
         \<and> length (data out) = 3 \<and> width out * height out * channels out = 1"
  using grayscale_data_length [of "\<lparr>data = [10, 20, 30], width = 1, height = 1, channels = 3\<rparr>"]
  by auto

subsection \<open>The pixels after grayscale\<close>

text \<open>
  One round of the loop, on a buffer of \<open>m\<close> pixels of 3 or 4 bytes: the three
  components are read inside the data, and their luma is stored at \<^verbatim>\<open>offset\<close>.
\<close>

lemma grayscale_body_step:
  assumes c: "c = 3 \<or> c = 4" and len: "length d = m * c" and n: "length nd = m * 3"
    and j: "c * off < length d"
  shows "\<exists>v. luma (Some (d ! (c * off))) (Some (d ! (c * off + 1))) (Some (d ! (c * off + 2))) = Some v
           \<and> grayscale_body d (c * off) (off, nd) = (off + 1, nd[off := v])
           \<and> off < m"
proof -
  from j len have off: "off < m" by (simp add: mult.commute)
  then have "c * off + c \<le> m * c"
    by (metis Suc_leI mult.commute mult_Suc mult_le_mono2 add.commute)
  with c len have r: "c * off < length d" "c * off + 1 < length d" "c * off + 2 < length d"
    by auto
  obtain v where v: "luma (Some (d ! (c * off))) (Some (d ! (c * off + 1)))
                       (Some (d ! (c * off + 2))) = Some v"
    by (simp add: luma_def)
  from off n have "off < length nd" by simp
  with r v have "grayscale_body d (c * off) (off, nd) = (off + 1, nd[off := v])"
    by (simp add: grayscale_body_def get_elem_def set_elem_def)
  with v off show ?thesis by blast
qed

text \<open>The 2 by 2 RGB buffer red, green, blue, white, and all the bytes of the result.\<close>

lemma grayscale_example:
  "grayscale \<lparr>data = [255, 0, 0, 0, 255, 0, 0, 0, 255, 255, 255, 255],
              width = 2, height = 2, channels = 3\<rparr>
     = Some (Returned \<lparr>data = [76, 150, 29, 255, 0, 0, 0, 0, 0, 0, 0, 0],
                       width = 2, height = 2, channels = 1\<rparr>)"
  by code_simp

text \<open>
  C4.  From 3 or 4 channels, on a buffer of \<open>width * height * channels\<close> bytes,
  \<^verbatim>\<open>grayscale\<close> returns a one-channel instance of the same width and height in which the
  pixel \<open>p\<close> is the luma, \<^verbatim>\<open>Math.round(0.2989 * R + 0.5870 * G + 0.1140 * B)\<close> in
  JavaScript numbers, of the first three bytes of the pixel \<open>p\<close> of the input; the fourth
  byte of an RGBA pixel does not enter.  On the 2 by 2 RGB buffer red, green, blue, white
  the four pixels are 76, 150, 29, 255.
\<close>

theorem grayscale_pixels_are_luma:
  assumes c: "channels this = 3 \<or> channels this = 4"
    and valid: "length (data this) = width this * height this * channels this"
  shows "\<exists>out. grayscale this = Some (Returned out)
           \<and> channels out = 1 \<and> width out = width this \<and> height out = height this
           \<and> (\<forall>p < width this * height this.
                 luma (Some (data this ! (channels this * p)))
                      (Some (data this ! (channels this * p + 1)))
                      (Some (data this ! (channels this * p + 2)))
                   = Some (data out ! p))"
proof -
  let ?c = "channels this" and ?d = "data this" and ?m = "width this * height this"
  let ?lum = "\<lambda>p. luma (Some (?d ! (?c * p))) (Some (?d ! (?c * p + 1))) (Some (?d ! (?c * p + 2)))"
  let ?P = "\<lambda>(j::nat) (s :: nat \<times> byte list).
              j = ?c * fst s \<and> length (snd s) = ?m * 3
              \<and> (\<forall>p < fst s. ?lum p = Some (snd s ! p))"
  have "\<exists>t j. for_loop 0 (length ?d) ?c (grayscale_body ?d) (0, new_Uint8ClampedArray (?m * 3)) = Some t
               \<and> ?P j t \<and> length ?d \<le> j"
  proof (rule for_loop_rule)
    show "0 < ?c" using c by auto
    show "?P 0 (0, new_Uint8ClampedArray (?m * 3))" by simp
    fix j t assume inv: "?P j t" and lt: "j < length ?d"
    obtain off nd where t: "t = (off, nd)" by (cases t)
    from inv t have j: "j = ?c * off" and n: "length nd = ?m * 3"
      and sofar: "\<forall>p < off. ?lum p = Some (nd ! p)"
      by simp_all
    from grayscale_body_step [OF c valid n, of off] lt j obtain v where
      v: "?lum off = Some v" and step: "grayscale_body ?d (?c * off) (off, nd) = (off + 1, nd[off := v])"
      and off: "off < ?m"
      by auto
    have "\<forall>p < off + 1. ?lum p = Some (nd[off := v] ! p)"
    proof (intro allI impI)
      fix p assume "p < off + 1"
      then consider "p < off" | "p = off" by linarith
      then show "?lum p = Some (nd[off := v] ! p)"
      proof cases
        case 1
        with sofar show ?thesis by simp
      next
        case 2
        with v off n show ?thesis by simp
      qed
    qed
    then show "?P (j + ?c) (grayscale_body ?d j t)"
      using j n step t by simp
  qed
  then obtain off nd j where
    run: "for_loop 0 (length ?d) ?c (grayscale_body ?d) (0, new_Uint8ClampedArray (?m * 3))
            = Some (off, nd)"
    and j: "j = ?c * off" and fin: "length ?d \<le> j"
    and sofar: "\<forall>p < off. ?lum p = Some (nd ! p)"
    by auto
  from fin j valid c have "?m \<le> off"
    by (auto simp: mult.commute)
  with sofar have "\<forall>p < ?m. ?lum p = Some (nd ! p)" by simp
  moreover from run c have "grayscale this = Some (Returned (this\<lparr>data := nd, channels := 1\<rparr>))"
    by (auto simp: grayscale_def update'_def Let_def)
  ultimately show ?thesis by simp
qed

theorem grayscale_pixels_are_luma_witness:
  "\<exists>out. grayscale \<lparr>data = [255, 0, 0, 0, 255, 0, 0, 0, 255, 255, 255, 255],
                     width = 2, height = 2, channels = 3\<rparr> = Some (Returned out)
         \<and> channels out = 1 \<and> width out = 2 \<and> height out = 2
         \<and> data out ! 0 = 76 \<and> data out ! 1 = 150 \<and> data out ! 2 = 29 \<and> data out ! 3 = 255
         \<and> luma (Some 255) (Some 0) (Some 0) = Some 76
         \<and> luma (Some 0) (Some 255) (Some 0) = Some 150
         \<and> luma (Some 0) (Some 0) (Some 255) = Some 29
         \<and> luma (Some 255) (Some 255) (Some 255) = Some 255"
proof -
  let ?ex = "\<lparr>data = [255, 0, 0, 0, 255, 0, 0, 0, 255, 255, 255, 255 :: byte],
              width = 2, height = 2, channels = 3\<rparr>"
  have c: "channels ?ex = 3 \<or> channels ?ex = 4" by simp
  have valid: "length (data ?ex) = width ?ex * height ?ex * channels ?ex" by simp
  from grayscale_pixels_are_luma [OF c valid] obtain out where
    g: "grayscale ?ex = Some (Returned out)"
    and fields: "channels out = 1" "width out = width ?ex" "height out = height ?ex"
    and px: "\<forall>p < width ?ex * height ?ex.
               luma (Some (data ?ex ! (channels ?ex * p)))
                    (Some (data ?ex ! (channels ?ex * p + 1)))
                    (Some (data ?ex ! (channels ?ex * p + 2)))
                 = Some (data out ! p)"
    by blast
  from g grayscale_example have out:
    "out = \<lparr>data = [76, 150, 29, 255, 0, 0, 0, 0, 0, 0, 0, 0], width = 2, height = 2,
            channels = 1\<rparr>"
    by simp
  have v: "data out ! 0 = 76" "data out ! 1 = 150" "data out ! 2 = 29" "data out ! 3 = 255"
    by (simp_all add: out)
  have l0: "luma (Some 255) (Some 0) (Some 0) = Some 76"
    using px [rule_format, of 0] v(1) by simp
  have l1: "luma (Some 0) (Some 255) (Some 0) = Some 150"
    using px [rule_format, of 1] v(2) by simp
  have l2: "luma (Some 0) (Some 0) (Some 255) = Some 29"
    using px [rule_format, of 2] v(3) by simp
  have l3: "luma (Some 255) (Some 255) (Some 255) = Some 255"
    using px [rule_format, of 3] v(4) by simp
  from g fields v l0 l1 l2 l3 show ?thesis by simp
qed

subsection \<open>Gray, then RGB\<close>

text \<open>
  C6.  For an instance with 1, 3 or 4 channels, \<^verbatim>\<open>convert(1)\<close> and then \<^verbatim>\<open>convert(3)\<close>
  both return, and leave a 3-channel buffer of the same width and height, of
  \<open>width * height * 3\<close> bytes, in which the three components of every pixel are equal.
  (The length of the data of the input plays no part.)
\<close>

theorem convert_gray_then_rgb:
  assumes "channels img \<in> {1, 3, 4}"
  shows "\<exists>g out. convert 1 img = Some (Returned g) \<and> convert 3 g = Some (Returned out)
           \<and> channels out = 3 \<and> width out = width img \<and> height out = height img
           \<and> length (data out) = width img * height img * 3
           \<and> (\<forall>p < width img * height img.
                 data out ! (3 * p) = data out ! (3 * p + 1)
               \<and> data out ! (3 * p + 1) = data out ! (3 * p + 2))"
proof -
  have "\<exists>g. convert 1 img = Some (Returned g) \<and> channels g = 1
           \<and> width g = width img \<and> height g = height img"
  proof (cases "channels img = 1")
    case True
    then show ?thesis by (simp add: convert_def)
  next
    case False
    with assms have c: "channels img = 3 \<or> channels img = 4" by auto
    from grayscale_returns [OF c] False show ?thesis
      by (auto simp: convert_def)
  qed
  then obtain g where g: "convert 1 img = Some (Returned g)" "channels g = 1"
    "width g = width img" "height g = height img"
    by blast
  from rgb_from_gray_returns [OF g(2)] obtain d where
    d: "rgb g = Some (Returned (g\<lparr>data := d, channels := 3\<rparr>))"
       "length d = width g * height g * 3" "gray_pixels (width g * height g) d"
    by blast
  have "convert 3 g = Some (Returned (g\<lparr>data := d, channels := 3\<rparr>))"
    using g(2) d(1) by (simp add: convert_def)
  with g d show ?thesis
    by (auto simp: gray_pixels_def)
qed

theorem convert_gray_then_rgb_witness:
  "\<exists>g out. convert 1 \<lparr>data = [10, 20, 30], width = 1, height = 1, channels = 3\<rparr>
              = Some (Returned g)
         \<and> convert 3 g = Some (Returned out)
         \<and> channels out = 3 \<and> length (data out) = 3
         \<and> data out ! 0 = data out ! 1 \<and> data out ! 1 = data out ! 2"
proof -
  let ?img = "\<lparr>data = [10, 20, 30], width = 1, height = 1, channels = 3\<rparr>"
  have c: "channels ?img \<in> {1, 3, 4}" by simp
  from convert_gray_then_rgb [OF c] obtain g out where
    h: "convert 1 ?img = Some (Returned g)" "convert 3 g = Some (Returned out)"
       "channels out = 3" "length (data out) = width ?img * height ?img * 3"
       "\<forall>p < width ?img * height ?img.
           data out ! (3 * p) = data out ! (3 * p + 1)
         \<and> data out ! (3 * p + 1) = data out ! (3 * p + 2)"
    by blast
  from h(5) have "data out ! (3 * 0) = data out ! (3 * 0 + 1)
                \<and> data out ! (3 * 0 + 1) = data out ! (3 * 0 + 2)"
    by simp
  then have "data out ! 0 = data out ! 1 \<and> data out ! 1 = data out ! 2"
    by (simp add: numeral_2_eq_2)
  moreover from h(4) have "length (data out) = 3" by simp
  ultimately show ?thesis using h(1,2,3) by blast
qed

subsection \<open>resize through a canvas\<close>

lemma toCanvas_browser:
  assumes "\<not> IS_REACT_NATIVE env" "BROWSER_ENV env" "ImageData_present env"
    "OffscreenCanvas_present env"
    and "channels this \<in> {1, 3, 4}"
  shows "\<exists>cv. toCanvas env this = Some (Inr cv)"
proof -
  have "\<exists>cloned. rgba (clone this) = Some (Returned cloned)"
  proof (cases "channels this = 4")
    case True
    then show ?thesis by (simp add: rgba_def clone_def new_RawImage_def)
  next
    case False
    with assms(5) have "channels (clone this) = 1 \<or> channels (clone this) = 3"
      by (auto simp: clone_def new_RawImage_def)
    from rgba_returns [OF this] show ?thesis by blast
  qed
  then obtain cloned where "rgba (clone this) = Some (Returned cloned)" by blast
  then show ?thesis using assms(1-4)
    by (simp add: toCanvas_def and_then_def instance_of_def createCanvasFunction_def
          createCanvasFunction_defined_def new_ImageDataClass_def ImageDataClass_defined_def)
qed

text \<open>
  C5.  The claim is that \<^verbatim>\<open>resize(w, h)\<close> returns \<open>w * h * channels\<close> bytes with the
  channels of the input.  In a browser, a one-channel instance is drawn as RGBA and the
  result converted back with \<^verbatim>\<open>convert(1)\<close>, that is \<^verbatim>\<open>grayscale\<close>: the call returns an
  instance of width \<open>w\<close>, height \<open>h\<close> and one channel, over \<open>3 * w * h\<close> bytes.
\<close>

theorem resize_canvas_one_channel:
  assumes "\<not> IS_REACT_NATIVE env" "BROWSER_ENV env" "ImageData_present env"
    "OffscreenCanvas_present env"
    and "channels this = 1"
  shows "\<exists>out. snd (resize env this w h resample) = Some (Inr out)
           \<and> width out = w \<and> height out = h \<and> channels out = 1
           \<and> length (data out) = 3 * (w * h * channels out)"
proof -
  from assms(5) have "channels this \<in> {1, 3, 4}" by simp
  from toCanvas_browser [OF assms(1-4) this] obtain cv where
    cv: "toCanvas env this = Some (Inr cv)" by blast
  define resizedImage where
    "resizedImage = new_RawImage
       (getImageData env (draw (Canvas w h []) (DrawImage5 cv 0 0 (of_nat w) (of_nat h))) w h)
       w h 4"
  have "channels resizedImage = 3 \<or> channels resizedImage = 4"
    by (simp add: resizedImage_def new_RawImage_def)
  from grayscale_returns [OF this] obtain d where
    d: "grayscale resizedImage = Some (Returned (resizedImage\<lparr>data := d, channels := 1\<rparr>))"
       "length d = width resizedImage * height resizedImage * 3"
    by blast
  have conv: "convert 1 resizedImage = grayscale resizedImage"
    by (simp add: convert_def resizedImage_def new_RawImage_def)
  have "snd (resize env this w h resample)
          = Some (Inr (resizedImage\<lparr>data := d, channels := 1\<rparr>))"
    using assms cv d(1) conv
    by (simp add: resize_def Let_def and_then_def instance_of_def createCanvasFunction_def
          createCanvasFunction_defined_def resizedImage_def split: option.splits)
  then show ?thesis using d(2)
    by (simp add: resizedImage_def new_RawImage_def)
qed

theorem resize_canvas_one_channel_witness:
  "\<exists>out. snd (resize example_browser \<lparr>data = [5], width = 1, height = 1, channels = 1\<rparr>
                 1 1 (Code 2)) = Some (Inr out)
         \<and> width out = 1 \<and> height out = 1 \<and> channels out = 1
         \<and> length (data out) = 3 \<and> width out * height out * channels out = 1"
proof -
  let ?img = "\<lparr>data = [5], width = 1, height = 1, channels = 1\<rparr>"
  have env: "\<not> IS_REACT_NATIVE example_browser" "BROWSER_ENV example_browser"
    "ImageData_present example_browser" "OffscreenCanvas_present example_browser"
    by (simp_all add: example_browser_def)
  have c: "channels ?img = 1" by simp
  from resize_canvas_one_channel [OF env c, of 1 1 "Code 2"] show ?thesis
    by auto
qed

subsection \<open>pad without a canvas\<close>

text \<open>
  The loop of this branch steps by \<^verbatim>\<open>channels\<close>: on an instance with no channel and
  some data it does not return.
\<close>

lemma pad_never_returns:
  assumes "IS_REACT_NATIVE env" "\<not> (createCanvasFunction_defined env \<and> useGCanvas env)"
    and "channels this = 0" "data this \<noteq> []"
    and "\<not> (max l 0 = 0 \<and> max r 0 = 0 \<and> max t 0 = 0 \<and> max b 0 = 0)"
  shows "pad env this (l, r, t, b) = None"
  using assms by (auto simp: pad_def Let_def for_loop_never_returns)

text \<open>
  C2.  The claim is that \<^verbatim>\<open>pad\<close> places the pixel \<open>(x, y)\<close> at \<open>(x + left, y + top)\<close>.
  In React Native without a canvas the loop writes it at \<open>(x, y)\<close> of the wider buffer:
  a 1 by 1 image with the byte 7, padded by one column on the left and one row on top,
  comes back with the 7 in the top left corner instead of the bottom right one.
\<close>

theorem pad_without_canvas_example:
  "pad example_react_native \<lparr>data = [7], width = 1, height = 1, channels = 1\<rparr> (1, 0, 1, 0)
     = Some (Inr \<lparr>data = [7, 0, 0, 0], width = 2, height = 2, channels = 1\<rparr>)"
  by code_simp

subsection \<open>center_crop without a canvas\<close>

text \<open>
  C3.  The claim is that a crop inside the source extracts the window whose top left
  pixel is at the floors of the offsets.  In React Native without a canvas the offsets
  enter the index as they are: cropping the 3 by 1 image 1, 2, 3 to 2 by 1 has the width
  offset one half, each index is a half, each read is \<^verbatim>\<open>undefined\<close>, and the result is
  0, 0 instead of 1, 2.
\<close>

theorem center_crop_without_canvas_example:
  "center_crop example_react_native \<lparr>data = [1, 2, 3], width = 3, height = 1, channels = 1\<rparr> 2 1
     = Some (Inr \<lparr>data = [0, 0], width = 2, height = 1, channels = 1\<rparr>)"
  by code_simp

subsection \<open>The resample methods of the native raster branch\<close>

lemma await_loadImageFunction_cases:
  "await_loadImageFunction env img \<noteq> None
   \<and> (\<forall>m. await_loadImageFunction env img \<noteq> Some (Inl (UnsupportedResampleMethod m)))"
  by (simp add: await_loadImageFunction_def split: sum.splits)

text \<open>The other branches never look at \<^verbatim>\<open>resample\<close>.\<close>

lemma resize_ignores_resample_outside_sharp:
  assumes "IS_REACT_NATIVE env \<or> BROWSER_ENV env"
  shows "resize env this w h r = resize env this w h r'"
  using assms by (auto simp: resize_def Let_def)

text \<open>
  C9.  In the sharp branch (neither React Native nor a browser), \<^verbatim>\<open>resize\<close> with box or
  hamming (by code or by name) is the call with bilinear: the same affine pipeline goes
  to the raster library and the same computation comes back, so the method never
  makes the call throw; one warning is written, none for bilinear.  A code or name
  that is neither a key of the table nor one of its six names throws the unsupported
  resample method error.
\<close>

theorem resize_sharp_resample_methods:
  assumes "\<not> IS_REACT_NATIVE env" "\<not> BROWSER_ENV env"
  shows "(\<forall>r \<in> {Code 4, Code 5, Name ''box'', Name ''hamming''}.
            snd (resize env this w h r) = snd (resize env this w h (Name ''bilinear''))
          \<and> snd (resize env this w h r) = snd (resize env this w h (Code 2))
          \<and> snd (resize env this w h r)
              = await_loadImageFunction env
                  (Sharp this [Affine (js_div w (width this)) (js_div h (height this)) ''bilinear''])
          \<and> snd (resize env this w h r) \<noteq> None
          \<and> (\<forall>m. snd (resize env this w h r) \<noteq> Some (Inl (UnsupportedResampleMethod m)))
          \<and> length (fst (resize env this w h r)) = 1
          \<and> fst (resize env this w h (Code 2)) = [])
       \<and> (\<forall>r. RESAMPLING_MAPPING r = None
               \<and> r \<notin> {Name ''nearest'', Name ''lanczos'', Name ''bilinear'', Name ''bicubic'',
                        Name ''box'', Name ''hamming''}
             \<longrightarrow> resize env this w h r = ([], Some (Inl (UnsupportedResampleMethod r))))"
  using assms await_loadImageFunction_cases
    [of env "Sharp this [Affine (js_div w (width this)) (js_div h (height this)) ''bilinear'']"]
  by (simp add: resize_def resize_sharp_def RESAMPLING_MAPPING_def Let_def)

theorem resize_sharp_resample_methods_witness:
  "resize example_node \<lparr>data = [5], width = 1, height = 1, channels = 1\<rparr> 1 1 (Code 4)
     = ([''Resampling method box is not yet supported. Using bilinear instead.''],
        Some (Inr \<lparr>data = [5], width = 1, height = 1, channels = 1\<rparr>))
   \<and> snd (resize example_node \<lparr>data = [5], width = 1, height = 1, channels = 1\<rparr> 1 1 (Code 4))
     = snd (resize example_node \<lparr>data = [5], width = 1, height = 1, channels = 1\<rparr> 1 1 (Code 2))
   \<and> resize example_node \<lparr>data = [5], width = 1, height = 1, channels = 1\<rparr> 1 1 (Code 6)
     = ([], Some (Inl (UnsupportedResampleMethod (Code 6))))
   \<and> resize example_node \<lparr>data = [5], width = 1, height = 1, channels = 1\<rparr> 1 1 (Name ''cubic'')
     = ([], Some (Inl (UnsupportedResampleMethod (Name ''cubic''))))"
proof -
  let ?img = "\<lparr>data = [5], width = 1, height = 1, channels = 1\<rparr>"
  have env: "\<not> IS_REACT_NATIVE example_node" "\<not> BROWSER_ENV example_node"
    by (simp_all add: example_node_def)
  note facts = resize_sharp_resample_methods [OF env, of ?img 1 1]
  have m: "Code 4 \<in> {Code 4, Code 5, Name ''box'', Name ''hamming''}" by simp
  have a: "snd (resize example_node ?img 1 1 (Code 4))
             = snd (resize example_node ?img 1 1 (Code 2))"
    by (rule facts [THEN conjunct1, THEN bspec, OF m, THEN conjunct2, THEN conjunct1])
  have b: "resize example_node ?img 1 1 (Code 6)
             = ([], Some (Inl (UnsupportedResampleMethod (Code 6))))"
    by (rule facts [THEN conjunct2, rule_format]) (simp add: RESAMPLING_MAPPING_def)
  have c: "resize example_node ?img 1 1 (Name ''cubic'')
             = ([], Some (Inl (UnsupportedResampleMethod (Name ''cubic''))))"
    by (rule facts [THEN conjunct2, rule_format]) (simp add: RESAMPLING_MAPPING_def)
  have d: "resize example_node ?img 1 1 (Code 4)
     = ([''Resampling method box is not yet supported. Using bilinear instead.''],
        Some (Inr ?img))"
    by (simp add: resize_def resize_sharp_def RESAMPLING_MAPPING_def Let_def
          await_loadImageFunction_def example_node_def)
  from a b c d show ?thesis by simp
qed

subsection \<open>Channel counts other than 1, 3 and 4\<close>

text \<open>
  C8.  On an instance whose channel count is not 1, 3 or 4 (2, say), \<^verbatim>\<open>grayscale\<close>,
  \<^verbatim>\<open>rgb\<close>, \<^verbatim>\<open>rgba\<close> and \<^verbatim>\<open>convert\<close> to any other count throw the unsupported channel
  count error, and the fields of the instance (data, width, height, channels) are then
  what they were before the call.
\<close>

theorem unsupported_channel_count_throws:
  assumes "channels this \<notin> {1, 3, 4}"
  shows "grayscale this = Some (Threw (UnsupportedChannelCount (channels this)) this)
       \<and> rgb this = Some (Threw (UnsupportedChannelCount (channels this)) this)
       \<and> rgba this = Some (Threw (UnsupportedChannelCount (channels this)) this)
       \<and> (\<forall>numChannels. numChannels \<noteq> channels this \<longrightarrow>
            convert numChannels this
              = Some (Threw (UnsupportedChannelCount (channels this)) this))"
  using assms by (simp add: grayscale_def rgb_def rgba_def convert_def Let_def)

theorem unsupported_channel_count_throws_witness:
  "grayscale \<lparr>data = [1, 2], width = 1, height = 1, channels = 2\<rparr>
     = Some (Threw (UnsupportedChannelCount 2)
               \<lparr>data = [1, 2], width = 1, height = 1, channels = 2\<rparr>)
   \<and> rgb \<lparr>data = [1, 2], width = 1, height = 1, channels = 2\<rparr>
     = Some (Threw (UnsupportedChannelCount 2)
               \<lparr>data = [1, 2], width = 1, height = 1, channels = 2\<rparr>)
   \<and> rgba \<lparr>data = [1, 2], width = 1, height = 1, channels = 2\<rparr>
     = Some (Threw (UnsupportedChannelCount 2)
               \<lparr>data = [1, 2], width = 1, height = 1, channels = 2\<rparr>)
   \<and> convert 3 \<lparr>data = [1, 2], width = 1, height = 1, channels = 2\<rparr>
     = Some (Threw (UnsupportedChannelCount 2)
               \<lparr>data = [1, 2], width = 1, height = 1, channels = 2\<rparr>)"
  using unsupported_channel_count_throws
    [of "\<lparr>data = [1, 2], width = 1, height = 1, channels = 2\<rparr>"]
  by simp

subsection \<open>pad with nothing to add\<close>

text \<open>
  C7.  \<^verbatim>\<open>pad\<close> uses each offset only through its maximum with 0, and when the four
  clamped offsets are 0 (the caller may have passed negative ones) it returns the
  instance itself, with the same bytes, width, height and channels, in every host.
\<close>

theorem pad_clamps_and_noop:
  "pad env this (l, r, t, b) = pad env this (max l 0, max r 0, max t 0, max b 0)
   \<and> (max l 0 = 0 \<and> max r 0 = 0 \<and> max t 0 = 0 \<and> max b 0 = 0
        \<longrightarrow> pad env this (l, r, t, b) = Some (Inr this))"
  by (simp add: pad_def)

theorem pad_clamps_and_noop_witness:
  "\<forall>env. pad env \<lparr>data = [9, 8, 7], width = 1, height = 1, channels = 3\<rparr> (- 3, 0, - 1, 0)
           = Some (Inr \<lparr>data = [9, 8, 7], width = 1, height = 1, channels = 3\<rparr>)"
proof
  fix env
  show "pad env \<lparr>data = [9, 8, 7], width = 1, height = 1, channels = 3\<rparr> (- 3, 0, - 1, 0)
          = Some (Inr \<lparr>data = [9, 8, 7], width = 1, height = 1, channels = 3\<rparr>)"
  proof -
    have clamped: "max (- 3 :: int) 0 = 0 \<and> max (0 :: int) 0 = 0
                     \<and> max (- 1 :: int) 0 = 0 \<and> max (0 :: int) 0 = 0"
      by simp
    from pad_clamps_and_noop
      [of env "\<lparr>data = [9, 8, 7], width = 1, height = 1, channels = 3\<rparr>" "- 3" 0 "- 1" 0]
      clamped
    show ?thesis by blast
  qed
qed

subsection \<open>clone, and what toImageData and toCanvas leave alone\<close>

lemma extends_view:
  assumes "extends st st' changed" "r < length (objects st)" "r \<noteq> changed"
    "data_ref (objects st ! r) < length (arrays st)"
  shows "view st' r = view st r"
  using assms by (simp add: extends_def view_def Let_def)

lemma conversion_extends:
  assumes "conversion_in_store conversion st this = Some (e, st')"
  shows "extends st st' this"
  using assms
  by (auto simp: conversion_in_store_def extends_def new_array_def update_in_store_def Let_def
        nth_append split: option.splits outcome.splits if_splits)

lemma clone_extends:
  assumes "clone_in_store st this = (c, st1)"
  shows "extends st st1 (length (objects st))"
    and "c = length (objects st)"
    and "length (objects st1) = Suc (length (objects st))"
    and "length (arrays st1) = Suc (length (arrays st))"
    and "data_ref (objects st1 ! c) = length (arrays st)"
    and "arrays st1 ! length (arrays st) = arrays st ! data_ref (objects st ! this)"
    and "o_width (objects st1 ! c) = o_width (objects st ! this)"
    and "o_height (objects st1 ! c) = o_height (objects st ! this)"
    and "o_channels (objects st1 ! c) = o_channels (objects st ! this)"
  using assms
  by (auto simp: clone_in_store_def extends_def new_array_def new_object_def Let_def nth_append)

lemma clone_then_convert_frame:
  assumes wf: "this < length (objects st)" "data_ref (objects st ! this) < length (arrays st)"
    and cl: "clone_in_store st this = (cloned, st1)"
    and cv: "conversion_in_store conversion st1 cloned = Some (e, st2)"
  shows "view st2 this = view st this"
proof -
  note ex1 = clone_extends(1) [OF cl] and c = clone_extends(2) [OF cl]
    and len = clone_extends(3) [OF cl]
  from conversion_extends [OF cv] have ex2: "extends st1 st2 cloned" .
  have "view st1 this = view st this"
    using ex1 wf by (intro extends_view) auto
  moreover have "view st2 this = view st1 this"
  proof (rule extends_view [OF ex2])
    show "this < length (objects st1)" using wf len by simp
    show "this \<noteq> cloned" using wf c by simp
    have "objects st1 ! this = objects st ! this"
      using ex1 wf by (simp add: extends_def)
    moreover have "length (arrays st) \<le> length (arrays st1)"
      using ex1 by (simp add: extends_def)
    ultimately show "data_ref (objects st1 ! this) < length (arrays st1)"
      using wf by simp
  qed
  ultimately show ?thesis by simp
qed

text \<open>
  C10.  In a store where \<^verbatim>\<open>this\<close> is an object with its array: \<^verbatim>\<open>clone()\<close> returns
  another object, over another array with the same bytes, and leaves \<^verbatim>\<open>this\<close> as it
  was; whatever conversion then runs on \<^verbatim>\<open>this\<close>, returning or throwing, the clone
  reads as before.  So \<^verbatim>\<open>toImageData()\<close> and \<^verbatim>\<open>toCanvas()\<close>, which convert a clone
  to RGBA, leave the data, width, height and channels of \<^verbatim>\<open>this\<close> unchanged, whether
  they return or throw.
\<close>

theorem clone_is_a_deep_copy:
  assumes wf: "this < length (objects st)" "data_ref (objects st ! this) < length (arrays st)"
  shows "(\<forall>c st1. clone_in_store st this = (c, st1) \<longrightarrow>
            c \<noteq> this
          \<and> data_ref (objects st1 ! c) \<noteq> data_ref (objects st1 ! this)
          \<and> view st1 c = view st this
          \<and> view st1 this = view st this
          \<and> (\<forall>conversion e st2. conversion_in_store conversion st1 this = Some (e, st2)
                 \<longrightarrow> view st2 c = view st1 c))
       \<and> (\<forall>r st'. toImageData_in_store env st this = Some (r, st')
             \<longrightarrow> view st' this = view st this)
       \<and> (\<forall>r st'. toCanvas_in_store env st this = Some (r, st')
             \<longrightarrow> view st' this = view st this)"
proof (intro conjI allI impI)
  fix c st1 assume cl: "clone_in_store st this = (c, st1)"
  note ex1 = clone_extends(1) [OF cl] and c = clone_extends(2) [OF cl]
    and lo = clone_extends(3) [OF cl] and la = clone_extends(4) [OF cl]
    and ref = clone_extends(5) [OF cl] and bytes = clone_extends(6) [OF cl]
    and fields = clone_extends(7-9) [OF cl]
  have same: "objects st1 ! this = objects st ! this"
    using ex1 wf by (simp add: extends_def)
  show "c \<noteq> this" using wf c by simp
  show "data_ref (objects st1 ! c) \<noteq> data_ref (objects st1 ! this)"
    using ref same wf by simp
  show "view st1 c = view st this"
    using ref bytes fields by (simp add: view_def Let_def)
  show "view st1 this = view st this"
    using ex1 wf by (intro extends_view) auto
  fix conversion e st2 assume cv: "conversion_in_store conversion st1 this = Some (e, st2)"
  show "view st2 c = view st1 c"
  proof (rule extends_view [OF conversion_extends [OF cv]])
    show "c < length (objects st1)" using c lo by simp
    show "c \<noteq> this" using wf c by simp
    show "data_ref (objects st1 ! c) < length (arrays st1)" using ref la by simp
  qed
next
  fix r st' assume "toImageData_in_store env st this = Some (r, st')"
  then show "view st' this = view st this"
    using clone_then_convert_frame [OF wf]
    by (auto simp: toImageData_in_store_def split: if_splits prod.splits option.splits)
next
  fix r st' assume "toCanvas_in_store env st this = Some (r, st')"
  then show "view st' this = view st this"
    using clone_then_convert_frame [OF wf]
    by (auto simp: toCanvas_in_store_def split: if_splits prod.splits option.splits sum.splits)
qed

theorem clone_is_a_deep_copy_witness:
  "\<exists>c st1 e st2 r st'.
      clone_in_store example_store 0 = (c, st1) \<and> c \<noteq> 0
    \<and> data_ref (objects st1 ! c) \<noteq> data_ref (objects st1 ! 0)
    \<and> conversion_in_store rgba st1 0 = Some (e, st2)
    \<and> view st2 0 = \<lparr>data = [10, 20, 30, 255], width = 1, height = 1, channels = 4\<rparr>
    \<and> view st2 c = \<lparr>data = [10, 20, 30], width = 1, height = 1, channels = 3\<rparr>
    \<and> toImageData_in_store example_browser example_store 0 = Some (r, st')
    \<and> view st' 0 = \<lparr>data = [10, 20, 30], width = 1, height = 1, channels = 3\<rparr>"
proof -
  let ?st1 = "\<lparr>arrays = [[10, 20, 30], [10, 20, 30]],
               objects = [\<lparr>data_ref = 0, o_width = 1, o_height = 1, o_channels = 3\<rparr>,
                          \<lparr>data_ref = 1, o_width = 1, o_height = 1, o_channels = 3\<rparr>]\<rparr>"
  let ?st2 = "\<lparr>arrays = [[10, 20, 30], [10, 20, 30], [10, 20, 30, 255]],
               objects = [\<lparr>data_ref = 2, o_width = 1, o_height = 1, o_channels = 4\<rparr>,
                          \<lparr>data_ref = 1, o_width = 1, o_height = 1, o_channels = 3\<rparr>]\<rparr>"
  let ?st' = "\<lparr>arrays = [[10, 20, 30], [10, 20, 30], [10, 20, 30, 255]],
               objects = [\<lparr>data_ref = 0, o_width = 1, o_height = 1, o_channels = 3\<rparr>,
                          \<lparr>data_ref = 2, o_width = 1, o_height = 1, o_channels = 4\<rparr>]\<rparr>"
  have wf: "0 < length (objects example_store)"
    "data_ref (objects example_store ! 0) < length (arrays example_store)"
    by (simp_all add: example_store_def)
  have v0: "view example_store 0 = \<lparr>data = [10, 20, 30], width = 1, height = 1, channels = 3\<rparr>"
    by (simp add: example_store_def view_def)
  have cl: "clone_in_store example_store 0 = (1, ?st1)"
    by code_simp
  have cv: "conversion_in_store rgba ?st1 0 = Some (None, ?st2)"
    by code_simp
  have v2: "view ?st2 0 = \<lparr>data = [10, 20, 30, 255], width = 1, height = 1, channels = 4\<rparr>"
    by (simp add: view_def)
  have ti: "toImageData_in_store example_browser example_store 0
              = Some (Inr (ImageData [10, 20, 30, 255] 1 1), ?st')"
    by code_simp
  note deep = clone_is_a_deep_copy [OF wf, of example_browser]
  note after_clone = deep [THEN conjunct1, rule_format, OF cl]
  have "(1::nat) \<noteq> 0" and "data_ref (objects ?st1 ! 1) \<noteq> data_ref (objects ?st1 ! 0)"
    using after_clone by blast+
  moreover have "view ?st1 1 = view example_store 0"
    using after_clone by blast
  moreover have "view ?st2 1 = view ?st1 1"
    using after_clone cv by blast
  moreover have "view ?st' 0 = view example_store 0"
    using deep [THEN conjunct2, THEN conjunct1, rule_format, OF ti] .
  ultimately show ?thesis
    using cl cv ti v0 v2 by (intro exI [of _ 1] exI [of _ ?st1] exI [of _ None]
        exI [of _ ?st2] exI [of _ "Inr (ImageData [10, 20, 30, 255] 1 1)"] exI [of _ ?st']) simp
qed

end
